theory Spec2Isabelle
  imports Complex_Main "HOL-Library.Word" "HOL-Library.Log_Nat"
begin

section \<open>Gabor noise primitives of \<^verbatim>\<open>liboslnoise/gabornoise.h\<close>\<close>

text \<open>
  The header defines the per-cell random number generator \<^verbatim>\<open>fast_rng\<close>, the Gabor
  kernel, the 3D-to-2D slicing and the analytic filtering of a kernel, the periodic
  \<^verbatim>\<open>wrap\<close> and \<^verbatim>\<open>make_orthonormals\<close>.

  Numbers. \<^verbatim>\<open>unsigned int\<close> is \<^typ>\<open>32 word\<close>. A \<^verbatim>\<open>float\<close> is modelled by the
  real number it denotes and float arithmetic by exact real arithmetic: rounding of
  products, sums and of \<^verbatim>\<open>expf\<close>, \<^verbatim>\<open>cosf\<close>, \<^verbatim>\<open>sqrtf\<close> is outside the model, and so
  are infinities and NaN. Rounding is written out in the generator, where the results
  depend on it: in the conversion of the 32-bit state to \<^verbatim>\<open>float\<close> (24 bits of precision,
  round to nearest, ties to even) and in the products of \<^verbatim>\<open>poisson\<close>.
\<close>

type_synonym float = real

type_synonym uint = "32 word"

datatype Vec3 = Vec3 (vx: float) (vy: float) (vz: float)

datatype Vec2 = Vec2 (ux: float) (uy: float)

subsection \<open>The cell generator \<^verbatim>\<open>fast_rng\<close>\<close>

text \<open>
  \<^verbatim>\<open>float(n)\<close> for an \<^verbatim>\<open>unsigned int\<close> n: the nearest number with a 24-bit significand,
  ties to even. \<open>floorlog 2 n\<close> is the number of bits of \<open>n\<close>, and \<open>excess_bits n\<close> the
  number of low bits that do not fit into the significand.
\<close>

definition excess_bits :: "nat \<Rightarrow> nat" where
  "excess_bits n = floorlog 2 n - 24"

definition rounded :: "nat \<Rightarrow> nat" where
  "rounded n =
     (let e = excess_bits n; q = n div 2 ^ e; r = n mod 2 ^ e
      in if e = 0 then n
         else if 2 ^ (e - 1) < r \<or> (r = 2 ^ (e - 1) \<and> odd q) then (q + 1) * 2 ^ e
         else q * 2 ^ e)"

definition float_of_uint :: "uint \<Rightarrow> float" where
  "float_of_uint w = real (rounded (unat w))"

definition UINT_MAX :: uint where
  "UINT_MAX = 4294967295"

record fast_rng =
  m_seed :: uint

text \<open>
  The constructor. \<^verbatim>\<open>quick_floor\<close> (float to \<^verbatim>\<open>int\<close>) and \<^verbatim>\<open>inthash<4>\<close> are defined
  in other headers; they are parameters here. \<^verbatim>\<open>unsigned(i)\<close> of an \<^verbatim>\<open>int\<close> is its
  value modulo \<open>2^32\<close>. The local \<open>pi\<close> is the array \<^verbatim>\<open>pi[4]\<close> of the code.
\<close>

definition fast_rng_ctor ::
  "(float \<Rightarrow> int) \<Rightarrow> (uint list \<Rightarrow> uint) \<Rightarrow> Vec3 \<Rightarrow> int \<Rightarrow> fast_rng" where
  "fast_rng_ctor quick_floor inthash p seed =
     (let pi = [word_of_int (quick_floor (vx p)),
                word_of_int (quick_floor (vy p)),
                word_of_int (quick_floor (vz p)),
                word_of_int seed];
          h = inthash pi
      in \<lparr>m_seed = (if h = 0 then 1 else h)\<rparr>)"

text \<open>
  \<^verbatim>\<open>operator()\<close>: \<^verbatim>\<open>return (m_seed *= 3039177861u) / float(UINT_MAX);\<close>
  The state is multiplied in place, the new state is converted to \<^verbatim>\<open>float\<close> and divided
  by \<^verbatim>\<open>float(UINT_MAX)\<close>, which is \<open>2^32\<close>: a division by a power of two, exact in
  \<^verbatim>\<open>float\<close>. The result is the value returned and the generator after the call.
\<close>

definition fast_rng_call :: "fast_rng \<Rightarrow> float \<times> fast_rng" where
  "fast_rng_call r =
     (let s = m_seed r * 3039177861
      in (float_of_uint s / float_of_uint UINT_MAX, r\<lparr>m_seed := s\<rparr>))"

definition draw :: "fast_rng \<Rightarrow> float" where
  "draw r = fst (fast_rng_call r)"

definition advance :: "fast_rng \<Rightarrow> fast_rng" where
  "advance r = snd (fast_rng_call r)"

text \<open>The first \<open>n\<close> values a generator returns, in order.\<close>

fun draws :: "nat \<Rightarrow> fast_rng \<Rightarrow> float list" where
  "draws 0 r = []"
| "draws (Suc n) r = draw r # draws n (advance r)"

subsection \<open>Float multiplication and \<^verbatim>\<open>poisson\<close>\<close>

text \<open>
  \<^verbatim>\<open>poisson\<close> multiplies floats in a loop and compares the product with \<^verbatim>\<open>expf (-mean)\<close>;
  what it returns depends on the rounding of every product, so here the rounding is
  written out. \<open>fround\<close> rounds a real number to the nearest \<^verbatim>\<open>float\<close> (IEEE binary32,
  ties to even): the numbers of magnitude from \<open>2^k\<close> up to \<open>2^(k+1)\<close> are the multiples of
  \<open>2^(k-23)\<close>, but never finer than \<open>2^(-149)\<close>, the spacing of the subnormal numbers.
  Overflow to infinity is not modelled: the generator only multiplies numbers in \<open>[0, 1]\<close>.
\<close>

definition round_half_even :: "real \<Rightarrow> int" where
  "round_half_even y =
     (let f = \<lfloor>y\<rfloor>
      in if y - of_int f < 1 / 2 then f
         else if 1 / 2 < y - of_int f then f + 1
         else if even f then f else f + 1)"

definition ulp_exponent :: "real \<Rightarrow> int" where
  "ulp_exponent x = max (- 149) (\<lfloor>log 2 x\<rfloor> - 23)"

definition fround :: "real \<Rightarrow> float" where
  "fround x =
     (if x = 0 then 0
      else let e = ulp_exponent \<bar>x\<bar>;
               m = round_half_even (\<bar>x\<bar> / 2 powr of_int e)
           in sgn x * (of_int m * 2 powr of_int e))"

definition fmul :: "float \<Rightarrow> float \<Rightarrow> float" where
  "fmul a b = fround (a * b)"

text \<open>
  \<^verbatim>\<open>expf\<close> is the C library's and a parameter of \<^verbatim>\<open>poisson\<close> here. Where a concrete one
  is needed it is the correctly rounded exponential.
\<close>

definition expf_nearest :: "float \<Rightarrow> float" where
  "expf_nearest x = fround (exp x)"

text \<open>
  \<^verbatim>\<open>poisson\<close>. The loop multiplies \<^verbatim>\<open>t\<close> by a fresh value while \<^verbatim>\<open>t > g\<close> and counts
  the rounds in the \<^verbatim>\<open>unsigned int em\<close>. Nothing in the code bounds the number of rounds,
  so the loop is a partial function and \<open>None\<close> stands for a loop that never ends.
  \<^verbatim>\<open>return em;\<close> converts the counter to \<^verbatim>\<open>int\<close>.
\<close>

partial_function (option) poisson_loop ::
  "float \<Rightarrow> uint \<Rightarrow> float \<Rightarrow> fast_rng \<Rightarrow> (uint \<times> fast_rng) option" where
  "poisson_loop g em t r =
     (if t > g then poisson_loop g (em + 1) (fmul t (fst (fast_rng_call r))) (snd (fast_rng_call r))
      else Some (em, r))"

definition poisson :: "(float \<Rightarrow> float) \<Rightarrow> fast_rng \<Rightarrow> float \<Rightarrow> (int \<times> fast_rng) option" where
  "poisson expf r mean =
     (let g = expf (- mean)
      in case poisson_loop g 0 (fst (fast_rng_call r)) (snd (fast_rng_call r)) of
           None \<Rightarrow> None
         | Some (em, r') \<Rightarrow> Some (sint em, r'))"


subsection \<open>Values with derivatives\<close>

text \<open>
  Modelled from the spec: the class \<^verbatim>\<open>Dual2\<close> of \<^verbatim>\<open>OSL/dual.h\<close> and its arithmetic are
  not in the file. A \<^verbatim>\<open>Dual2<T>\<close> carries a value and its partial derivatives with respect
  to two directions; addition, subtraction, multiplication, \<^verbatim>\<open>exp\<close>, \<^verbatim>\<open>cos\<close> and \<^verbatim>\<open>dot\<close>
  propagate them by the sum, product and chain rules. A plain \<^verbatim>\<open>float\<close> operand has
  derivatives zero.
\<close>

record 'a Dual2 =
  val :: 'a
  dx :: 'a
  dy :: 'a

definition dual_add :: "float Dual2 \<Rightarrow> float Dual2 \<Rightarrow> float Dual2" where
  "dual_add a b = \<lparr>val = val a + val b, dx = dx a + dx b, dy = dy a + dy b\<rparr>"

definition dual_mul :: "float Dual2 \<Rightarrow> float Dual2 \<Rightarrow> float Dual2" where
  "dual_mul a b =
     \<lparr>val = val a * val b,
      dx = val a * dx b + dx a * val b,
      dy = val a * dy b + dy a * val b\<rparr>"

definition float_mul_dual :: "float \<Rightarrow> float Dual2 \<Rightarrow> float Dual2" where
  "float_mul_dual c a = \<lparr>val = c * val a, dx = c * dx a, dy = c * dy a\<rparr>"

definition dual_mul_float :: "float Dual2 \<Rightarrow> float \<Rightarrow> float Dual2" where
  "dual_mul_float a c = \<lparr>val = val a * c, dx = dx a * c, dy = dy a * c\<rparr>"

definition float_sub_dual :: "float \<Rightarrow> float Dual2 \<Rightarrow> float Dual2" where
  "float_sub_dual c a = \<lparr>val = c - val a, dx = - dx a, dy = - dy a\<rparr>"

definition dual_exp :: "float Dual2 \<Rightarrow> float Dual2" where
  "dual_exp a = \<lparr>val = exp (val a), dx = exp (val a) * dx a, dy = exp (val a) * dy a\<rparr>"

definition dual_cos :: "float Dual2 \<Rightarrow> float Dual2" where
  "dual_cos a = \<lparr>val = cos (val a), dx = - sin (val a) * dx a, dy = - sin (val a) * dy a\<rparr>"

definition dot3 :: "Vec3 \<Rightarrow> Vec3 \<Rightarrow> float" where
  "dot3 a b = vx a * vx b + vy a * vy b + vz a * vz b"

definition dot2 :: "Vec2 \<Rightarrow> Vec2 \<Rightarrow> float" where
  "dot2 a b = ux a * ux b + uy a * uy b"

text \<open>
  \<^verbatim>\<open>dot\<close> of two vectors with derivatives, and of a plain vector with one, over the
  \<^verbatim>\<open>dot\<close> of the vector type.
\<close>

definition dual_dot :: "('v \<Rightarrow> 'v \<Rightarrow> float) \<Rightarrow> 'v Dual2 \<Rightarrow> 'v Dual2 \<Rightarrow> float Dual2" where
  "dual_dot d a b =
     \<lparr>val = d (val a) (val b),
      dx = d (dx a) (val b) + d (val a) (dx b),
      dy = d (dy a) (val b) + d (val a) (dy b)\<rparr>"

definition vec_dot_dual :: "('v \<Rightarrow> 'v \<Rightarrow> float) \<Rightarrow> 'v \<Rightarrow> 'v Dual2 \<Rightarrow> float Dual2" where
  "vec_dot_dual d a b = \<lparr>val = d a (val b), dx = d a (dx b), dy = d a (dy b)\<rparr>"

subsection \<open>The Gabor kernel\<close>

text \<open>
  \<^verbatim>\<open>gabor_kernel\<close> is a template over the vector type \<^verbatim>\<open>VEC\<close> (\<^verbatim>\<open>Vec3\<close> or \<^verbatim>\<open>Vec2\<close>);
  the \<^verbatim>\<open>dot\<close> of that type is the first argument here.
\<close>

definition gabor_kernel ::
  "('v \<Rightarrow> 'v \<Rightarrow> float) \<Rightarrow> float Dual2 \<Rightarrow> 'v \<Rightarrow> float Dual2 \<Rightarrow> float \<Rightarrow> 'v Dual2 \<Rightarrow> float Dual2" where
  "gabor_kernel d weight omega phi bandwidth x =
     (let g = dual_exp (float_mul_dual (- pi * (bandwidth * bandwidth)) (dual_dot d x x));
          h = dual_cos (dual_add (float_mul_dual (2 * pi) (vec_dot_dual d omega x)) phi)
      in dual_mul (dual_mul weight g) h)"

text \<open>
  The kernel as a formula on plain numbers, for comparison with \<^verbatim>\<open>gabor_kernel\<close>:
  \<open>weight * exp (- pi * bandwidth^2 * |x|^2) * cos (2 * pi * dot omega x + phi)\<close>.
\<close>

definition gabor_formula ::
  "('v \<Rightarrow> 'v \<Rightarrow> float) \<Rightarrow> float \<Rightarrow> 'v \<Rightarrow> float \<Rightarrow> float \<Rightarrow> 'v \<Rightarrow> float" where
  "gabor_formula d weight omega phi bandwidth x =
     weight * exp (- pi * bandwidth\<^sup>2 * d x x) * cos (2 * pi * d omega x + phi)"

text \<open>
  The derivative of that formula along one direction by the product and chain rules,
  from the values \<open>w\<close>, \<open>p\<close>, \<open>v\<close> and the derivatives \<open>w'\<close>, \<open>p'\<close>, \<open>v'\<close> of weight,
  phase and position along it.
\<close>

definition gabor_partial ::
  "('v \<Rightarrow> 'v \<Rightarrow> float) \<Rightarrow> float \<Rightarrow> float \<Rightarrow> 'v \<Rightarrow> float \<Rightarrow> float \<Rightarrow> float \<Rightarrow> 'v \<Rightarrow> 'v \<Rightarrow> float" where
  "gabor_partial d w w' omega p p' b v v' =
     (w * (exp (- pi * (b * b) * d v v) * (- pi * (b * b) * (d v' v + d v v')))
        + w' * exp (- pi * (b * b) * d v v)) * cos (2 * pi * d omega v + p)
      + (w * exp (- pi * (b * b) * d v v))
        * (- sin (2 * pi * d omega v + p) * (2 * pi * d omega v' + p'))"

text \<open>\<^verbatim>\<open>slice_gabor_kernel_3d\<close>: the three results \<^verbatim>\<open>w_s\<close>, \<^verbatim>\<open>omega_s\<close>, \<^verbatim>\<open>phi_s\<close>.\<close>

definition slice_gabor_kernel_3d ::
  "float Dual2 \<Rightarrow> float \<Rightarrow> float \<Rightarrow> Vec3 \<Rightarrow> float \<Rightarrow> float Dual2 \<times> Vec2 \<times> float Dual2" where
  "slice_gabor_kernel_3d d w a omega phi =
     (let w_s = float_mul_dual w (dual_exp (float_mul_dual (- pi * (a * a)) (dual_mul d d)));
          omega_s = Vec2 (vx omega) (vy omega);
          phi_s = float_sub_dual phi (dual_mul_float (float_mul_dual (2 * pi) d) (vx omega))
      in (w_s, omega_s, phi_s))"

subsection \<open>The analytic filter\<close>

text \<open>
  Modelled from the spec: the class \<^verbatim>\<open>Matrix22\<close> of \<^verbatim>\<open>OSL/Imathx.h\<close> is not in the file.
  It is a 2 by 2 matrix with determinant, inverse, sum, product, product with a scalar
  and with a vector; the default constructor gives the identity. The inverse divides the
  adjugate by the determinant, which is meaningful for a regular matrix only.
  \<^verbatim>\<open>multMatrix\<close> multiplies a row vector by the matrix.
\<close>

datatype Matrix22 = Matrix22 (m00: float) (m01: float) (m10: float) (m11: float)

definition mat_identity :: Matrix22 where
  "mat_identity = Matrix22 1 0 0 1"

definition determinant :: "Matrix22 \<Rightarrow> float" where
  "determinant m = m00 m * m11 m - m10 m * m01 m"

definition inverse22 :: "Matrix22 \<Rightarrow> Matrix22" where
  "inverse22 m =
     (let r = determinant m
      in Matrix22 (m11 m / r) (- m01 m / r) (- m10 m / r) (m00 m / r))"

definition mat_scale :: "float \<Rightarrow> Matrix22 \<Rightarrow> Matrix22" where
  "mat_scale c m = Matrix22 (c * m00 m) (c * m01 m) (c * m10 m) (c * m11 m)"

definition mat_add :: "Matrix22 \<Rightarrow> Matrix22 \<Rightarrow> Matrix22" where
  "mat_add a b = Matrix22 (m00 a + m00 b) (m01 a + m01 b) (m10 a + m10 b) (m11 a + m11 b)"

definition mat_mul :: "Matrix22 \<Rightarrow> Matrix22 \<Rightarrow> Matrix22" where
  "mat_mul a b =
     Matrix22 (m00 a * m00 b + m01 a * m10 b) (m00 a * m01 b + m01 a * m11 b)
              (m10 a * m00 b + m11 a * m10 b) (m10 a * m01 b + m11 a * m11 b)"

definition mat_mul_vec :: "Matrix22 \<Rightarrow> Vec2 \<Rightarrow> Vec2" where
  "mat_mul_vec m v = Vec2 (m00 m * ux v + m01 m * uy v) (m10 m * ux v + m11 m * uy v)"

definition multMatrix :: "Matrix22 \<Rightarrow> Vec2 \<Rightarrow> Vec2" where
  "multMatrix m src = Vec2 (ux src * m00 m + uy src * m10 m) (ux src * m01 m + uy src * m11 m)"

text \<open>
  \<^verbatim>\<open>filter_gabor_kernel_2d\<close> (its argument \<^verbatim>\<open>filter\<close> is \<open>filt\<close> here), with the four
  results \<^verbatim>\<open>w_f\<close>, \<^verbatim>\<open>a_f\<close>, \<^verbatim>\<open>omega_f\<close>, \<^verbatim>\<open>phi_f\<close>. The function has no failure branch:
  it checks none of its arguments.
\<close>

definition filter_gabor_kernel_2d ::
  "Matrix22 \<Rightarrow> float Dual2 \<Rightarrow> float \<Rightarrow> Vec2 \<Rightarrow> float Dual2 \<Rightarrow>
     float Dual2 \<times> float \<times> Vec2 \<times> float Dual2" where
  "filter_gabor_kernel_2d filt w a omega phi =
     (let Sigma_f = filt;
          c_G = w;
          mu_G = omega;
          Sigma_G = mat_scale (a * a / (2 * pi)) mat_identity;
          c_F = 1 / (2 * pi * sqrt (determinant Sigma_f));
          Sigma_F = mat_scale (1 / (4 * pi * pi)) (inverse22 Sigma_f);
          Sigma_G_Sigma_F = mat_add Sigma_G Sigma_F;
          c_GF = dual_mul_float
                   (dual_mul_float (float_mul_dual c_F c_G)
                      (1 / (2 * pi * sqrt (determinant Sigma_G_Sigma_F))))
                   (exp (- 0.5 * dot2 (mat_mul_vec (inverse22 Sigma_G_Sigma_F) mu_G) mu_G));
          Sigma_G_i = inverse22 Sigma_G;
          Sigma_GF = inverse22 (mat_add (inverse22 Sigma_F) Sigma_G_i);
          Sigma_GF_Gi = mat_mul Sigma_GF Sigma_G_i;
          mu_GF = multMatrix Sigma_GF_Gi mu_G
      in (c_GF, sqrt (2 * pi * sqrt (determinant Sigma_GF)), mu_GF, phi))"


subsection \<open>Periodic wrap\<close>

definition floorf :: "float \<Rightarrow> float" where
  "floorf x = real_of_int \<lfloor>x\<rfloor>"

definition wrap :: "float \<Rightarrow> float \<Rightarrow> float" where
  "wrap s period =
     (let period1 = floorf period;
          period2 = (if period1 < 1 then 1 else period1)
      in s - period2 * floorf (s / period2))"

text \<open>The period \<^verbatim>\<open>wrap\<close> works with, in closed form: floored, and at least 1.\<close>

definition clamped_period :: "float \<Rightarrow> float" where
  "clamped_period period = max 1 (real_of_int \<lfloor>period\<rfloor>)"

definition wrap3 :: "Vec3 \<Rightarrow> Vec3 \<Rightarrow> Vec3" where
  "wrap3 s period =
     Vec3 (wrap (vx s) (vx period)) (wrap (vy s) (vy period)) (wrap (vz s) (vz period))"

subsection \<open>Orthonormal frame\<close>

text \<open>
  Modelled from the spec: the vector class \<^verbatim>\<open>Vec3\<close> (Imath's) is not in the file.
  \<^verbatim>\<open>length\<close> is the Euclidean norm, \<^verbatim>\<open>normalize\<close> divides a vector by its length, \<^verbatim>\<open>cross\<close>
  is the vector product. On the zero vector, where the spec only says that the frame
  is degenerate, \<^verbatim>\<open>normalize\<close> leaves the vector as it is.
\<close>

definition length3 :: "Vec3 \<Rightarrow> float" where
  "length3 v = sqrt (dot3 v v)"

definition normalize3 :: "Vec3 \<Rightarrow> Vec3" where
  "normalize3 v =
     (let l = length3 v
      in if l \<noteq> 0 then Vec3 (vx v / l) (vy v / l) (vz v / l) else v)"

definition cross3 :: "Vec3 \<Rightarrow> Vec3 \<Rightarrow> Vec3" where
  "cross3 a b =
     Vec3 (vy a * vz b - vz a * vy b) (vz a * vx b - vx a * vz b) (vx a * vy b - vy a * vx b)"

text \<open>\<^verbatim>\<open>make_orthonormals\<close> updates \<^verbatim>\<open>v\<close> in place and sets \<^verbatim>\<open>a\<close> and \<^verbatim>\<open>b\<close>: the three results.\<close>

definition make_orthonormals :: "Vec3 \<Rightarrow> Vec3 \<times> Vec3 \<times> Vec3" where
  "make_orthonormals v0 =
     (let v = normalize3 v0;
          a0 = (if \<bar>vx v\<bar> < 0.9 then Vec3 0 (vz v) (- vy v) else Vec3 (- vz v) 0 (vx v));
          a = normalize3 a0;
          b = cross3 v a
      in (v, a, b))"

subsection \<open>Floor of a point with derivatives\<close>

definition floor_Dual2 :: "Vec3 Dual2 \<Rightarrow> Vec3" where
  "floor_Dual2 vd =
     (let v = val vd in Vec3 (floorf (vx v)) (floorf (vy v)) (floorf (vz v)))"

subsection \<open>Validated parameters\<close>

text \<open>
  Modelled from the spec: \<^verbatim>\<open>NoiseParams\<close> and its construction are not in the file, which
  only names the type in the declarations of \<^verbatim>\<open>fast_gabor\<close> and \<^verbatim>\<open>fast_gabor3\<close>. By the
  spec the parameters hold the bandwidth, the anisotropy mode with the base direction,
  the filtering flag with the footprint covariance, and the periodicity with the period
  vector. They are validated once, at construction: a bandwidth that is not positive and
  a singular footprint covariance (a determinant that is not positive) are configuration
  errors; period components are floored and clamped to at least 1, never rejected.
  The evaluation of a sample runs on validated parameters only.
\<close>

datatype error = ConfigurationError

datatype Anisotropy = Isotropic | Anisotropic

record NoiseParams =
  np_anisotropy :: Anisotropy
  np_bandwidth :: float
  np_direction :: Vec3
  np_do_filter :: bool
  np_footprint :: Matrix22
  np_periodic :: bool
  np_period :: Vec3

definition NoiseParams_validate :: "NoiseParams \<Rightarrow> error + NoiseParams" where
  "NoiseParams_validate p =
     (if np_bandwidth p \<le> 0 then Inl ConfigurationError
      else if determinant (np_footprint p) \<le> 0 then Inl ConfigurationError
      else Inr (p\<lparr>np_period := Vec3 (clamped_period (vx (np_period p)))
                                  (clamped_period (vy (np_period p)))
                                  (clamped_period (vz (np_period p)))\<rparr>))"

text \<open>
  Modelled from the spec: the evaluation of a sample (\<^verbatim>\<open>fast_gabor\<close>, only declared in
  the file) is missing. This is its filtering step from construction on: the parameters
  are validated, and \<^verbatim>\<open>filter_gabor_kernel_2d\<close> runs on the validated footprint and
  bandwidth.
\<close>

definition filtered_kernel ::
  "NoiseParams \<Rightarrow> float Dual2 \<Rightarrow> Vec2 \<Rightarrow> float Dual2 \<Rightarrow>
     error + (float Dual2 \<times> float \<times> Vec2 \<times> float Dual2)" where
  "filtered_kernel p w omega phi =
     (case NoiseParams_validate p of
        Inl e \<Rightarrow> Inl e
      | Inr q \<Rightarrow> Inr (filter_gabor_kernel_2d (np_footprint q) w (np_bandwidth q) omega phi))"

section \<open>Properties of the cell generator\<close>

lemma multiplier_inverse: "(3039177861 :: uint) * 1186131021 = 1"
  by simp

lemma multiplier_cancel:
  assumes "(s :: uint) * 3039177861 = 0"
  shows "s = 0"
proof -
  have "s = s * (3039177861 * 1186131021)"
    by (simp only: multiplier_inverse mult_1_right)
  also have "\<dots> = (s * 3039177861) * 1186131021"
    by (simp only: mult.assoc)
  also have "\<dots> = 0"
    by (simp only: assms mult_zero_left)
  finally show ?thesis .
qed

lemma m_seed_advance: "m_seed (advance r) = m_seed r * 3039177861"
  by (simp add: advance_def fast_rng_call_def Let_def)

lemma m_seed_ctor_nonzero: "m_seed (fast_rng_ctor quick_floor inthash p seed) \<noteq> 0"
  by (simp add: fast_rng_ctor_def Let_def)

lemma m_seed_advance_nonzero:
  assumes "m_seed r \<noteq> 0"
  shows "m_seed (advance r) \<noteq> 0"
proof
  assume "m_seed (advance r) = 0"
  then have "m_seed r * 3039177861 = 0"
    by (simp only: m_seed_advance)
  then have "m_seed r = 0"
    by (rule multiplier_cancel)
  with assms show False ..
qed

lemma m_seed_funpow_nonzero: "m_seed r \<noteq> 0 \<Longrightarrow> m_seed ((advance ^^ n) r) \<noteq> 0"
  by (induction n) (simp_all add: m_seed_advance_nonzero)

subsection \<open>The conversion of the state to \<^verbatim>\<open>float\<close>\<close>

lemma floorlog_uint_max: "floorlog 2 4294967295 = 32"
  by (simp add: compute_floorlog)

lemma excess_bits_max: "excess_bits 4294967295 = 8"
  by (simp add: excess_bits_def floorlog_uint_max)

lemma rounded_max: "rounded 4294967295 = 4294967296"
  by (simp add: rounded_def Let_def excess_bits_max)

lemma float_of_uint_max: "float_of_uint 4294967295 = 4294967296"
  by (simp add: float_of_uint_def rounded_max)

lemma excess_bits_le:
  assumes "n < 2 ^ 32"
  shows "excess_bits n \<le> 8"
proof -
  have "floorlog 2 n \<le> 32"
    using assms floorlog_leI [of n 2 32] by simp
  then show ?thesis by (simp add: excess_bits_def)
qed

lemma excess_bits_upper:
  assumes "0 < excess_bits n"
  shows "n < 2 ^ (24 + excess_bits n)"
proof -
  have "floorlog 2 n \<noteq> 0" using assms by (simp add: excess_bits_def)
  then have "0 < n" by (simp add: floorlog_eq_zero_iff)
  then have "n < 2 ^ floorlog 2 n" using floorlog_bounds [of n 2] by simp
  moreover have "floorlog 2 n = 24 + excess_bits n" using assms by (simp add: excess_bits_def)
  ultimately show ?thesis by simp
qed

lemma excess_bits_zero:
  assumes "excess_bits n = 0"
  shows "n < 2 ^ 24"
proof -
  have "floorlog 2 n \<le> 24" using assms by (simp add: excess_bits_def)
  then show ?thesis by (rule floorlog_leD) simp
qed

text \<open>Rounding to a multiple of \<open>2 ^ e\<close>: at most one step above the quotient.\<close>

lemma rounded_le:
  fixes n e :: nat
  assumes "n < 2 ^ (24 + e)"
  shows "(n div 2 ^ e + 1) * 2 ^ e \<le> 2 ^ (24 + e)"
proof -
  have "n div 2 ^ e < 2 ^ 24"
    using assms by (simp add: less_mult_imp_div_less power_add)
  then have "n div 2 ^ e + 1 \<le> 2 ^ 24" by simp
  then have "(n div 2 ^ e + 1) * 2 ^ e \<le> 2 ^ 24 * 2 ^ e"
    by (rule mult_le_mono1)
  then show ?thesis by (simp add: power_add)
qed

lemma rounded_le_pow:
  assumes "0 < excess_bits n"
  shows "rounded n \<le> 2 ^ (24 + excess_bits n)"
proof -
  let ?e = "excess_bits n"
  have n: "n < 2 ^ (24 + ?e)" by (rule excess_bits_upper [OF assms])
  have up: "(n div 2 ^ ?e + 1) * 2 ^ ?e \<le> 2 ^ (24 + ?e)" by (rule rounded_le [OF n])
  have "n div 2 ^ ?e * 2 ^ ?e \<le> (n div 2 ^ ?e + 1) * 2 ^ ?e" by simp
  from this up have down: "n div 2 ^ ?e * 2 ^ ?e \<le> 2 ^ (24 + ?e)" by (rule order_trans)
  show ?thesis using assms up down by (simp add: rounded_def Let_def)
qed

lemma rounded_le_max:
  assumes "n < 2 ^ 32"
  shows "rounded n \<le> 2 ^ 32"
proof (cases "excess_bits n = 0")
  case True
  then show ?thesis using assms by (simp add: rounded_def Let_def)
next
  case False
  then have "rounded n \<le> 2 ^ (24 + excess_bits n)" by (simp add: rounded_le_pow)
  also have "\<dots> \<le> 2 ^ 32"
    using excess_bits_le [OF assms] by (intro power_increasing) simp_all
  finally show ?thesis .
qed

subsection \<open>Rounding to \<^verbatim>\<open>float\<close>\<close>











subsection \<open>The range of the uniform generator\<close>

lemma failing_state_step: "(3108836275 :: uint) * 3039177861 = 4294967295"
  by simp

lemma fast_rng_call_max:
  assumes "m_seed r * 3039177861 = 4294967295"
  shows "fast_rng_call r = (1, r\<lparr>m_seed := 4294967295\<rparr>)"
  unfolding fast_rng_call_def Let_def UINT_MAX_def assms float_of_uint_max
  by simp

text \<open>
  C5. Each call multiplies the state by 3039177861 modulo \<open>2^32\<close>, but the value
  returned is not always below 1: from the state 3108836275 the call moves to the state
  \<open>2^32 - 1\<close> and returns \<^verbatim>\<open>float(UINT_MAX) / float(UINT_MAX)\<close>, which is 1. A generator
  constructed for a cell whose hash is 3108836275 is in that state.
\<close>

theorem fast_rng_call_returns_one:
  "fast_rng_call \<lparr>m_seed = 3108836275\<rparr> = (1, \<lparr>m_seed = 4294967295\<rparr>) \<and>
   fast_rng_ctor quick_floor (\<lambda>ws. 3108836275) p seed = \<lparr>m_seed = 3108836275\<rparr>"
proof
  have "m_seed \<lparr>m_seed = 3108836275\<rparr> * 3039177861 = 4294967295"
    by (simp only: fast_rng.select_convs failing_state_step)
  from fast_rng_call_max [OF this]
  show "fast_rng_call \<lparr>m_seed = 3108836275\<rparr> = (1, \<lparr>m_seed = 4294967295\<rparr>)"
    by (simp only: fast_rng.update_convs)
  show "fast_rng_ctor quick_floor (\<lambda>ws. 3108836275) p seed = \<lparr>m_seed = 3108836275\<rparr>"
    by (simp add: fast_rng_ctor_def)
qed

lemma unat_uint_less: "unat (s :: uint) < 4294967296"
  using unsigned_less [of s, where 'a = nat] by simp

lemma draw_eq: "draw r = real (rounded (unat (m_seed r * 3039177861))) / 4294967296"
  by (simp add: draw_def fast_rng_call_def Let_def UINT_MAX_def float_of_uint_max)
    (simp add: float_of_uint_def)

lemma draw_nonneg: "0 \<le> draw r"
  by (simp add: draw_eq)

lemma draw_le_one: "draw r \<le> 1"
proof -
  have "unat (m_seed r * 3039177861) < 2 ^ 32"
    using unat_uint_less [of "m_seed r * 3039177861"] by simp
  then have "rounded (unat (m_seed r * 3039177861)) \<le> 2 ^ 32"
    by (rule rounded_le_max)
  then have "real (rounded (unat (m_seed r * 3039177861))) \<le> real (2 ^ 32)"
    by (simp only: of_nat_le_iff)
  then show ?thesis by (simp add: draw_eq)
qed

subsection \<open>The state and the values are never zero\<close>

lemma rounded_pos:
  assumes "0 < n"
  shows "0 < rounded n"
proof (cases "excess_bits n = 0")
  case True
  then show ?thesis using assms by (simp add: rounded_def)
next
  case False
  define e where "e = excess_bits n"
  have e: "floorlog 2 n = 24 + e" using False by (simp add: excess_bits_def e_def)
  have "(2::nat) ^ (floorlog 2 n - 1) \<le> n"
    using floorlog_bounds [of n 2] assms by simp
  moreover have "(2::nat) ^ e \<le> 2 ^ (floorlog 2 n - 1)"
    by (rule power_increasing) (simp_all add: e)
  ultimately have "(2::nat) ^ e \<le> n" by (rule order_trans [rotated])
  then have q: "0 < n div 2 ^ e" by (simp add: div_greater_zero_iff)
  then have "0 < n div 2 ^ e * 2 ^ e" by simp
  moreover have "0 < (n div 2 ^ e + 1) * 2 ^ e" by simp
  ultimately show ?thesis using False
    unfolding rounded_def Let_def e_def [symmetric] by (simp only: if_False split: if_split) simp
qed

lemma draw_pos:
  assumes "m_seed r \<noteq> 0"
  shows "0 < draw r"
proof -
  have "m_seed (advance r) \<noteq> 0" using assms by (rule m_seed_advance_nonzero)
  then have "m_seed r * 3039177861 \<noteq> 0" unfolding m_seed_advance .
  then have "0 < unat (m_seed r * 3039177861)" unfolding unat_gt_0 .
  then have "0 < rounded (unat (m_seed r * 3039177861))" by (rule rounded_pos)
  then show ?thesis by (simp add: draw_eq)
qed

lemma draws_pos:
  assumes "m_seed r \<noteq> 0"
  shows "0 \<notin> set (draws k r)"
  using assms
proof (induction k arbitrary: r)
  case 0
  show ?case by simp
next
  case (Suc k)
  have "0 < draw r" using Suc.prems by (rule draw_pos)
  moreover have "0 \<notin> set (draws k (advance r))"
    by (rule Suc.IH) (rule m_seed_advance_nonzero [OF Suc.prems])
  ultimately show ?case by simp
qed

text \<open>
  C10. The state is non-zero after construction (a hash of 0 gives the state 1), every
  call of the generator maps a non-zero state to a non-zero state and returns a value above
  zero, and so on a constructed generator the state is non-zero after any number of calls,
  every call returns a value above zero, and no value of the stream is zero.
\<close>

theorem fast_rng_state_never_zero:
  "m_seed (fast_rng_ctor quick_floor inthash p seed) \<noteq> 0 \<and>
   m_seed (fast_rng_ctor quick_floor (\<lambda>ws. 0) p seed) = 1 \<and>
   (m_seed r \<noteq> 0 \<longrightarrow> m_seed (snd (fast_rng_call r)) \<noteq> 0 \<and> 0 < fst (fast_rng_call r)) \<and>
   m_seed ((advance ^^ n) (fast_rng_ctor quick_floor inthash p seed)) \<noteq> 0 \<and>
   0 < fst (fast_rng_call ((advance ^^ n) (fast_rng_ctor quick_floor inthash p seed))) \<and>
   0 \<notin> set (draws n (fast_rng_ctor quick_floor inthash p seed))"
proof (intro conjI impI)
  let ?c = "fast_rng_ctor quick_floor inthash p seed"
  show c: "m_seed ?c \<noteq> 0"
    by (rule m_seed_ctor_nonzero)
  show "m_seed (fast_rng_ctor quick_floor (\<lambda>ws. 0) p seed) = 1"
    by (simp add: fast_rng_ctor_def)
  show "m_seed (snd (fast_rng_call r)) \<noteq> 0" if "m_seed r \<noteq> 0"
    using m_seed_advance_nonzero [OF that] unfolding advance_def .
  show "0 < fst (fast_rng_call r)" if "m_seed r \<noteq> 0"
    using draw_pos [OF that] unfolding draw_def .
  show n: "m_seed ((advance ^^ n) ?c) \<noteq> 0"
    by (rule m_seed_funpow_nonzero [OF m_seed_ctor_nonzero])
  show "0 < fst (fast_rng_call ((advance ^^ n) ?c))"
    using draw_pos [OF n] unfolding draw_def .
  show "0 \<notin> set (draws n ?c)"
    using c by (rule draws_pos)
qed

theorem fast_rng_state_never_zero_witness:
  "m_seed (fast_rng_ctor (\<lambda>x. \<lfloor>x\<rfloor>) (\<lambda>ws. 0) (Vec3 0 0 0) 0) = 1 \<and>
   m_seed \<lparr>m_seed = 1\<rparr> \<noteq> 0 \<and>
   m_seed (snd (fast_rng_call \<lparr>m_seed = 1\<rparr>)) \<noteq> 0 \<and>
   0 < fst (fast_rng_call \<lparr>m_seed = 1\<rparr>) \<and>
   m_seed ((advance ^^ 2) (fast_rng_ctor (\<lambda>x. \<lfloor>x\<rfloor>) (\<lambda>ws. 0) (Vec3 0 0 0) 0)) \<noteq> 0 \<and>
   0 < fst (fast_rng_call ((advance ^^ 2) (fast_rng_ctor (\<lambda>x. \<lfloor>x\<rfloor>) (\<lambda>ws. 0) (Vec3 0 0 0) 0))) \<and>
   0 \<notin> set (draws 2 (fast_rng_ctor (\<lambda>x. \<lfloor>x\<rfloor>) (\<lambda>ws. 0) (Vec3 0 0 0) 0))"
proof -
  have nz: "m_seed \<lparr>m_seed = 1\<rparr> \<noteq> 0" by simp
  from nz fast_rng_state_never_zero [of "\<lambda>x. \<lfloor>x\<rfloor>" "\<lambda>ws. 0" "Vec3 0 0 0" 0 "\<lparr>m_seed = 1\<rparr>" 2]
  show ?thesis by blast
qed

subsection \<open>The loop of \<^verbatim>\<open>poisson\<close>\<close>






subsection \<open>Generators in a fixed state\<close>











subsection \<open>A few values of \<^verbatim>\<open>expf\<close>\<close>







subsection \<open>Bounds on rounded numbers\<close>








subsection \<open>A product that stalls\<close>



subsection \<open>What \<^verbatim>\<open>poisson\<close> returns\<close>





subsection \<open>Where the float product leaves Knuth's algorithm\<close>





subsection \<open>The generator of a cell\<close>

lemma fast_rng_ctor_cong:
  assumes "quick_floor (vx p) = quick_floor (vx q)"
    and "quick_floor (vy p) = quick_floor (vy q)"
    and "quick_floor (vz p) = quick_floor (vz q)"
  shows "fast_rng_ctor quick_floor inthash p seed = fast_rng_ctor quick_floor inthash q seed"
  by (simp add: fast_rng_ctor_def assms)

text \<open>
  C1. The constructor reads its point only through \<^verbatim>\<open>quick_floor\<close> of the three
  coordinates: two points on which these agree give, with the same seed, generators in
  the same state, hence the same values, the same Poisson counts and the same state
  afterwards. The cell of a point with derivatives, \<^verbatim>\<open>floor\<close>, reads the value only, so
  the generator of the cell does not depend on the derivatives. The state has no other
  input.
\<close>

theorem fast_rng_cell_deterministic:
  assumes "quick_floor (vx p) = quick_floor (vx q)"
    and "quick_floor (vy p) = quick_floor (vy q)"
    and "quick_floor (vz p) = quick_floor (vz q)"
  shows "fast_rng_ctor quick_floor inthash p seed = fast_rng_ctor quick_floor inthash q seed \<and>
    draws n (fast_rng_ctor quick_floor inthash p seed)
      = draws n (fast_rng_ctor quick_floor inthash q seed) \<and>
    poisson expf (fast_rng_ctor quick_floor inthash p seed) mean
      = poisson expf (fast_rng_ctor quick_floor inthash q seed) mean \<and>
    fast_rng_ctor quick_floor inthash (floor_Dual2 \<lparr>val = p, dx = d1, dy = d2\<rparr>) seed
      = fast_rng_ctor quick_floor inthash (floor_Dual2 \<lparr>val = p, dx = e1, dy = e2\<rparr>) seed"
proof -
  have "fast_rng_ctor quick_floor inthash p seed = fast_rng_ctor quick_floor inthash q seed"
    using assms by (rule fast_rng_ctor_cong)
  moreover have "floor_Dual2 \<lparr>val = p, dx = d1, dy = d2\<rparr> = floor_Dual2 \<lparr>val = p, dx = e1, dy = e2\<rparr>"
    by (simp add: floor_Dual2_def)
  ultimately show ?thesis by simp
qed

theorem fast_rng_cell_deterministic_witness:
  "\<lfloor>1 / 4 :: real\<rfloor> = \<lfloor>3 / 4 :: real\<rfloor> \<and> \<lfloor>3 / 2 :: real\<rfloor> = \<lfloor>5 / 4 :: real\<rfloor> \<and>
   \<lfloor>- (1 / 2) :: real\<rfloor> = \<lfloor>- (1 / 4) :: real\<rfloor> \<and>
   fast_rng_ctor floor sum_list (Vec3 (1 / 4) (3 / 2) (- (1 / 2))) 7
     = fast_rng_ctor floor sum_list (Vec3 (3 / 4) (5 / 4) (- (1 / 4))) 7 \<and>
   draws 3 (fast_rng_ctor floor sum_list (Vec3 (1 / 4) (3 / 2) (- (1 / 2))) 7)
     = draws 3 (fast_rng_ctor floor sum_list (Vec3 (3 / 4) (5 / 4) (- (1 / 4))) 7) \<and>
   poisson expf_nearest (fast_rng_ctor floor sum_list (Vec3 (1 / 4) (3 / 2) (- (1 / 2))) 7) 1
     = poisson expf_nearest (fast_rng_ctor floor sum_list (Vec3 (3 / 4) (5 / 4) (- (1 / 4))) 7) 1 \<and>
   m_seed (fast_rng_ctor floor sum_list (Vec3 (1 / 4) (3 / 2) (- (1 / 2))) 7) = 7"
proof -
  have f: "\<lfloor>1 / 4 :: real\<rfloor> = \<lfloor>3 / 4 :: real\<rfloor>" "\<lfloor>3 / 2 :: real\<rfloor> = \<lfloor>5 / 4 :: real\<rfloor>"
    "\<lfloor>- (1 / 2) :: real\<rfloor> = \<lfloor>- (1 / 4) :: real\<rfloor>"
    by simp_all
  have s: "m_seed (fast_rng_ctor floor sum_list (Vec3 (1 / 4) (3 / 2) (- (1 / 2))) 7) = 7"
    by (simp add: fast_rng_ctor_def)
  from fast_rng_cell_deterministic [of floor "Vec3 (1 / 4) (3 / 2) (- (1 / 2))"
      "Vec3 (3 / 4) (5 / 4) (- (1 / 4))" sum_list 7 3 expf_nearest 1]
  show ?thesis using f s by simp
qed

section \<open>Periodic wrap\<close>

lemma wrap_eq:
  "wrap s period = s - clamped_period period * real_of_int \<lfloor>s / clamped_period period\<rfloor>"
  by (simp add: wrap_def clamped_period_def floorf_def Let_def max_def)

lemma clamped_period_ge: "1 \<le> clamped_period period"
  by (simp add: clamped_period_def)

lemma wrap_range: "0 \<le> wrap s period \<and> wrap s period < clamped_period period"
proof -
  let ?p = "clamped_period period"
  have p: "0 < ?p" using clamped_period_ge [of period] by simp
  have "?p * real_of_int \<lfloor>s / ?p\<rfloor> \<le> ?p * (s / ?p)"
    using p by (intro mult_left_mono) simp_all
  then have lo: "?p * real_of_int \<lfloor>s / ?p\<rfloor> \<le> s"
    using p by simp
  have "?p * (s / ?p) < ?p * (real_of_int \<lfloor>s / ?p\<rfloor> + 1)"
    using p by (intro mult_strict_left_mono) linarith+
  then have "s < ?p * real_of_int \<lfloor>s / ?p\<rfloor> + ?p"
    using p by (simp add: algebra_simps)
  with lo show ?thesis by (simp add: wrap_eq)
qed

text \<open>
  C9. \<^verbatim>\<open>wrap\<close> floors the period and raises it to at least 1, for every period and
  without a failure branch, and returns \<open>s - p * floor (s / p)\<close> for the period \<open>p\<close> so
  clamped; in exact arithmetic the result lies in \<open>[0, p)\<close>. The \<^verbatim>\<open>Vec3\<close> overload wraps
  each of the three components with the matching component of the period.
\<close>

theorem wrap_floors_and_clamps:
  "wrap s period
     = s - max 1 (real_of_int \<lfloor>period\<rfloor>) * real_of_int \<lfloor>s / max 1 (real_of_int \<lfloor>period\<rfloor>)\<rfloor> \<and>
   1 \<le> max 1 (real_of_int \<lfloor>period\<rfloor>) \<and>
   0 \<le> wrap s period \<and> wrap s period < max 1 (real_of_int \<lfloor>period\<rfloor>) \<and>
   wrap3 (Vec3 s0 s1 s2) (Vec3 p0 p1 p2) = Vec3 (wrap s0 p0) (wrap s1 p1) (wrap s2 p2)"
  using wrap_eq [of s period] wrap_range [of s period]
  by (simp add: clamped_period_def wrap3_def)

section \<open>Slicing a 3D kernel\<close>

text \<open>
  C2. The sliced weight is \<open>w * exp (- pi * a^2 * d^2)\<close>, the sliced orientation is the
  first two components of \<open>omega\<close>, and the sliced phase is \<open>phi - 2 * pi * d * omega.x\<close>; the
  derivatives of weight and phase are those of these expressions in \<open>d\<close>.
\<close>

theorem slice_gabor_kernel_3d_result:
  "val (fst (slice_gabor_kernel_3d d w a omega phi)) = w * exp (- pi * a\<^sup>2 * (val d)\<^sup>2) \<and>
   fst (snd (slice_gabor_kernel_3d d w a omega phi)) = Vec2 (vx omega) (vy omega) \<and>
   val (snd (snd (slice_gabor_kernel_3d d w a omega phi))) = phi - 2 * pi * val d * vx omega \<and>
   dx (fst (slice_gabor_kernel_3d d w a omega phi))
     = w * exp (- pi * a\<^sup>2 * (val d)\<^sup>2) * (- pi * a\<^sup>2 * (2 * val d * dx d)) \<and>
   dy (fst (slice_gabor_kernel_3d d w a omega phi))
     = w * exp (- pi * a\<^sup>2 * (val d)\<^sup>2) * (- pi * a\<^sup>2 * (2 * val d * dy d)) \<and>
   dx (snd (snd (slice_gabor_kernel_3d d w a omega phi))) = - (2 * pi * dx d * vx omega) \<and>
   dy (snd (snd (slice_gabor_kernel_3d d w a omega phi))) = - (2 * pi * dy d * vx omega)"
  by (simp add: slice_gabor_kernel_3d_def Let_def float_mul_dual_def dual_exp_def dual_mul_def
      float_sub_dual_def dual_mul_float_def power2_eq_square algebra_simps)

section \<open>The Gabor kernel\<close>

lemma gabor_kernel_val:
  "val (gabor_kernel d weight omega phi bandwidth x)
     = gabor_formula d (val weight) omega (val phi) bandwidth (val x)"
  by (simp add: gabor_kernel_def gabor_formula_def Let_def dual_mul_def dual_exp_def dual_cos_def
      dual_add_def float_mul_dual_def dual_dot_def vec_dot_dual_def power2_eq_square)

text \<open>
  The derivative of the kernel along one direction, from the derivatives of the weight,
  of \<open>dot x x\<close>, of \<open>dot omega x\<close> and of the phase along it.
\<close>

lemma gabor_formula_deriv:
  fixes W Q E Phi :: "real \<Rightarrow> real"
  assumes "(W has_real_derivative w') (at u)"
    and "(Q has_real_derivative q') (at u)"
    and "(E has_real_derivative e') (at u)"
    and "(Phi has_real_derivative p') (at u)"
  shows "((\<lambda>u. W u * exp (- pi * b\<^sup>2 * Q u) * cos (2 * pi * E u + Phi u))
           has_real_derivative
         (W u * (exp (- pi * (b * b) * Q u) * (- pi * (b * b) * q'))
            + w' * exp (- pi * (b * b) * Q u)) * cos (2 * pi * E u + Phi u)
          + (W u * exp (- pi * (b * b) * Q u))
            * (- sin (2 * pi * E u + Phi u) * (2 * pi * e' + p'))) (at u)"
  by (auto intro!: derivative_eq_intros assms simp: power2_eq_square algebra_simps)

lemma dot3_self_deriv:
  fixes X Y Z :: "real \<Rightarrow> real"
  assumes "(X has_real_derivative vx v') (at u)"
    and "(Y has_real_derivative vy v') (at u)"
    and "(Z has_real_derivative vz v') (at u)"
  shows "((\<lambda>u. dot3 (Vec3 (X u) (Y u) (Z u)) (Vec3 (X u) (Y u) (Z u))) has_real_derivative
           dot3 v' (Vec3 (X u) (Y u) (Z u)) + dot3 (Vec3 (X u) (Y u) (Z u)) v') (at u)"
  unfolding dot3_def Vec3.sel
  by (auto intro!: derivative_eq_intros assms simp: algebra_simps)

lemma dot3_left_deriv:
  fixes X Y Z :: "real \<Rightarrow> real"
  assumes "(X has_real_derivative vx v') (at u)"
    and "(Y has_real_derivative vy v') (at u)"
    and "(Z has_real_derivative vz v') (at u)"
  shows "((\<lambda>u. dot3 omega (Vec3 (X u) (Y u) (Z u))) has_real_derivative dot3 omega v') (at u)"
  unfolding dot3_def Vec3.sel
  by (auto intro!: derivative_eq_intros assms simp: algebra_simps)


lemma dot2_self_deriv:
  fixes X Y :: "real \<Rightarrow> real"
  assumes "(X has_real_derivative ux v') (at u)"
    and "(Y has_real_derivative uy v') (at u)"
  shows "((\<lambda>u. dot2 (Vec2 (X u) (Y u)) (Vec2 (X u) (Y u))) has_real_derivative
           dot2 v' (Vec2 (X u) (Y u)) + dot2 (Vec2 (X u) (Y u)) v') (at u)"
  unfolding dot2_def Vec2.sel
  by (auto intro!: derivative_eq_intros assms simp: algebra_simps)

lemma dot2_left_deriv:
  fixes X Y :: "real \<Rightarrow> real"
  assumes "(X has_real_derivative ux v') (at u)"
    and "(Y has_real_derivative uy v') (at u)"
  shows "((\<lambda>u. dot2 omega (Vec2 (X u) (Y u))) has_real_derivative dot2 omega v') (at u)"
  unfolding dot2_def Vec2.sel
  by (auto intro!: derivative_eq_intros assms simp: algebra_simps)

lemma gabor_kernel_dx:
  "dx (gabor_kernel d weight omega phi b x)
     = gabor_partial d (val weight) (dx weight) omega (val phi) (dx phi) b (val x) (dx x)"
  by (simp add: gabor_kernel_def gabor_partial_def Let_def dual_mul_def dual_exp_def dual_cos_def
      dual_add_def float_mul_dual_def dual_dot_def vec_dot_dual_def)

lemma gabor_kernel_dy:
  "dy (gabor_kernel d weight omega phi b x)
     = gabor_partial d (val weight) (dy weight) omega (val phi) (dy phi) b (val x) (dy x)"
  by (simp add: gabor_kernel_def gabor_partial_def Let_def dual_mul_def dual_exp_def dual_cos_def
      dual_add_def float_mul_dual_def dual_dot_def vec_dot_dual_def)

lemma gabor_formula_partial:
  fixes W Phi :: "real \<Rightarrow> real" and P :: "real \<Rightarrow> Vec3"
  assumes W: "(W has_real_derivative w') (at u)"
    and X: "((\<lambda>u. vx (P u)) has_real_derivative vx v') (at u)"
    and Y: "((\<lambda>u. vy (P u)) has_real_derivative vy v') (at u)"
    and Z: "((\<lambda>u. vz (P u)) has_real_derivative vz v') (at u)"
    and Phi: "(Phi has_real_derivative p') (at u)"
  shows "((\<lambda>u. gabor_formula dot3 (W u) omega (Phi u) b (P u)) has_real_derivative
           gabor_partial dot3 (W u) w' omega (Phi u) p' b (P u) v') (at u)"
proof -
  have P: "P u = Vec3 (vx (P u)) (vy (P u)) (vz (P u))" for u by simp
  have Q: "((\<lambda>u. dot3 (P u) (P u)) has_real_derivative dot3 v' (P u) + dot3 (P u) v') (at u)"
    using dot3_self_deriv [OF X Y Z] by (simp only: P [symmetric])
  have E: "((\<lambda>u. dot3 omega (P u)) has_real_derivative dot3 omega v') (at u)"
    using dot3_left_deriv [OF X Y Z] by (simp only: P [symmetric])
  show ?thesis
    unfolding gabor_formula_def gabor_partial_def
    by (rule gabor_formula_deriv [OF W Q E Phi])
qed

text \<open>The same for the instance \<^verbatim>\<open>VEC = Vec2\<close> of the template.\<close>

lemma gabor_formula_partial_Vec2:
  fixes W Phi :: "real \<Rightarrow> real" and P :: "real \<Rightarrow> Vec2"
  assumes W: "(W has_real_derivative w') (at u)"
    and X: "((\<lambda>u. ux (P u)) has_real_derivative ux v') (at u)"
    and Y: "((\<lambda>u. uy (P u)) has_real_derivative uy v') (at u)"
    and Phi: "(Phi has_real_derivative p') (at u)"
  shows "((\<lambda>u. gabor_formula dot2 (W u) omega (Phi u) b (P u)) has_real_derivative
           gabor_partial dot2 (W u) w' omega (Phi u) p' b (P u) v') (at u)"
proof -
  have P: "P u = Vec2 (ux (P u)) (uy (P u))" for u by simp
  have Q: "((\<lambda>u. dot2 (P u) (P u)) has_real_derivative dot2 v' (P u) + dot2 (P u) v') (at u)"
    using dot2_self_deriv [OF X Y] by (simp only: P [symmetric])
  have E: "((\<lambda>u. dot2 omega (P u)) has_real_derivative dot2 omega v') (at u)"
    using dot2_left_deriv [OF X Y] by (simp only: P [symmetric])
  show ?thesis
    unfolding gabor_formula_def gabor_partial_def
    by (rule gabor_formula_deriv [OF W Q E Phi])
qed

lemma gabor_kernel_Vec2_exact:
  fixes W Phi :: "real \<Rightarrow> real \<Rightarrow> real" and P :: "real \<Rightarrow> real \<Rightarrow> Vec2"
  assumes "W s0 t0 = val weight" and "P s0 t0 = val x" and "Phi s0 t0 = val phi"
    and "((\<lambda>s. W s t0) has_real_derivative dx weight) (at s0)"
    and "((\<lambda>s. ux (P s t0)) has_real_derivative ux (dx x)) (at s0)"
    and "((\<lambda>s. uy (P s t0)) has_real_derivative uy (dx x)) (at s0)"
    and "((\<lambda>s. Phi s t0) has_real_derivative dx phi) (at s0)"
    and "((\<lambda>t. W s0 t) has_real_derivative dy weight) (at t0)"
    and "((\<lambda>t. ux (P s0 t)) has_real_derivative ux (dy x)) (at t0)"
    and "((\<lambda>t. uy (P s0 t)) has_real_derivative uy (dy x)) (at t0)"
    and "((\<lambda>t. Phi s0 t) has_real_derivative dy phi) (at t0)"
  shows "((\<lambda>s. gabor_formula dot2 (W s t0) omega (Phi s t0) bandwidth (P s t0))
       has_real_derivative dx (gabor_kernel dot2 weight omega phi bandwidth x)) (at s0)"
    and "((\<lambda>t. gabor_formula dot2 (W s0 t) omega (Phi s0 t) bandwidth (P s0 t))
       has_real_derivative dy (gabor_kernel dot2 weight omega phi bandwidth x)) (at t0)"
proof -
  show "((\<lambda>s. gabor_formula dot2 (W s t0) omega (Phi s t0) bandwidth (P s t0))
       has_real_derivative dx (gabor_kernel dot2 weight omega phi bandwidth x)) (at s0)"
    using gabor_formula_partial_Vec2 [OF assms(4-7), of omega bandwidth]
    by (simp only: gabor_kernel_dx assms(1-3))
  show "((\<lambda>t. gabor_formula dot2 (W s0 t) omega (Phi s0 t) bandwidth (P s0 t))
       has_real_derivative dy (gabor_kernel dot2 weight omega phi bandwidth x)) (at t0)"
    using gabor_formula_partial_Vec2 [OF assms(8-11), of omega bandwidth]
    by (simp only: gabor_kernel_dy assms(1-3))
qed

text \<open>
  C7. The value of the kernel is \<open>weight * exp (- pi * bandwidth^2 * |x|^2) *
  cos (2 * pi * dot omega x + phase)\<close>. For weight, position and phase that depend on two
  parameters \<open>s\<close> and \<open>t\<close>, with the values and the partial derivatives at \<open>(s0, t0)\<close>
  that the arguments carry, the two derivatives the result carries are the partial
  derivatives of that expression at \<open>(s0, t0)\<close>. Stated for \<^verbatim>\<open>VEC = Vec3\<close>;
  \<open>gabor_kernel_Vec2_exact\<close> is the same for \<^verbatim>\<open>Vec2\<close>, and the value is the formula for
  every \<^verbatim>\<open>VEC\<close> (\<open>gabor_kernel_val\<close>).
\<close>

theorem gabor_kernel_exact:
  fixes W Phi :: "real \<Rightarrow> real \<Rightarrow> real" and P :: "real \<Rightarrow> real \<Rightarrow> Vec3"
  assumes "W s0 t0 = val weight" and "P s0 t0 = val x" and "Phi s0 t0 = val phi"
    and "((\<lambda>s. W s t0) has_real_derivative dx weight) (at s0)"
    and "((\<lambda>s. vx (P s t0)) has_real_derivative vx (dx x)) (at s0)"
    and "((\<lambda>s. vy (P s t0)) has_real_derivative vy (dx x)) (at s0)"
    and "((\<lambda>s. vz (P s t0)) has_real_derivative vz (dx x)) (at s0)"
    and "((\<lambda>s. Phi s t0) has_real_derivative dx phi) (at s0)"
    and "((\<lambda>t. W s0 t) has_real_derivative dy weight) (at t0)"
    and "((\<lambda>t. vx (P s0 t)) has_real_derivative vx (dy x)) (at t0)"
    and "((\<lambda>t. vy (P s0 t)) has_real_derivative vy (dy x)) (at t0)"
    and "((\<lambda>t. vz (P s0 t)) has_real_derivative vz (dy x)) (at t0)"
    and "((\<lambda>t. Phi s0 t) has_real_derivative dy phi) (at t0)"
  shows "val (gabor_kernel dot3 weight omega phi bandwidth x)
      = val weight * exp (- pi * bandwidth\<^sup>2 * dot3 (val x) (val x))
          * cos (2 * pi * dot3 omega (val x) + val phi) \<and>
    ((\<lambda>s. gabor_formula dot3 (W s t0) omega (Phi s t0) bandwidth (P s t0))
       has_real_derivative dx (gabor_kernel dot3 weight omega phi bandwidth x)) (at s0) \<and>
    ((\<lambda>t. gabor_formula dot3 (W s0 t) omega (Phi s0 t) bandwidth (P s0 t))
       has_real_derivative dy (gabor_kernel dot3 weight omega phi bandwidth x)) (at t0)"
proof (intro conjI)
  show "val (gabor_kernel dot3 weight omega phi bandwidth x)
      = val weight * exp (- pi * bandwidth\<^sup>2 * dot3 (val x) (val x))
          * cos (2 * pi * dot3 omega (val x) + val phi)"
    by (simp add: gabor_kernel_val gabor_formula_def)
  show "((\<lambda>s. gabor_formula dot3 (W s t0) omega (Phi s t0) bandwidth (P s t0))
       has_real_derivative dx (gabor_kernel dot3 weight omega phi bandwidth x)) (at s0)"
    using gabor_formula_partial [OF assms(4-8), of omega bandwidth]
    by (simp only: gabor_kernel_dx assms(1-3))
  show "((\<lambda>t. gabor_formula dot3 (W s0 t) omega (Phi s0 t) bandwidth (P s0 t))
       has_real_derivative dy (gabor_kernel dot3 weight omega phi bandwidth x)) (at t0)"
    using gabor_formula_partial [OF assms(9-13), of omega bandwidth]
    by (simp only: gabor_kernel_dy assms(1-3))
qed

theorem gabor_kernel_exact_witness:
  "((\<lambda>s. s) has_real_derivative 1) (at (1 / 4 :: real)) \<and>
   val (gabor_kernel dot3 \<lparr>val = 1, dx = 0, dy = 0\<rparr> (Vec3 1 0 0) \<lparr>val = 0, dx = 0, dy = 0\<rparr> 1
          \<lparr>val = Vec3 (1 / 4) 0 0, dx = Vec3 1 0 0, dy = Vec3 0 1 0\<rparr>) = 0 \<and>
   ((\<lambda>s. gabor_formula dot3 1 (Vec3 1 0 0) 0 1 (Vec3 s 0 0)) has_real_derivative
      dx (gabor_kernel dot3 \<lparr>val = 1, dx = 0, dy = 0\<rparr> (Vec3 1 0 0) \<lparr>val = 0, dx = 0, dy = 0\<rparr> 1
            \<lparr>val = Vec3 (1 / 4) 0 0, dx = Vec3 1 0 0, dy = Vec3 0 1 0\<rparr>)) (at (1 / 4)) \<and>
   ((\<lambda>t. gabor_formula dot3 1 (Vec3 1 0 0) 0 1 (Vec3 (1 / 4) t 0)) has_real_derivative
      dy (gabor_kernel dot3 \<lparr>val = 1, dx = 0, dy = 0\<rparr> (Vec3 1 0 0) \<lparr>val = 0, dx = 0, dy = 0\<rparr> 1
            \<lparr>val = Vec3 (1 / 4) 0 0, dx = Vec3 1 0 0, dy = Vec3 0 1 0\<rparr>)) (at 0) \<and>
   dx (gabor_kernel dot3 \<lparr>val = 1, dx = 0, dy = 0\<rparr> (Vec3 1 0 0) \<lparr>val = 0, dx = 0, dy = 0\<rparr> 1
          \<lparr>val = Vec3 (1 / 4) 0 0, dx = Vec3 1 0 0, dy = Vec3 0 1 0\<rparr>)
     = - (2 * pi * exp (- (pi / 16)))"
proof -
  let ?w = "\<lparr>val = 1 :: real, dx = 0, dy = 0\<rparr>"
  let ?phi = "\<lparr>val = 0 :: real, dx = 0, dy = 0\<rparr>"
  let ?x = "\<lparr>val = Vec3 (1 / 4) 0 0, dx = Vec3 1 0 0, dy = Vec3 0 1 0\<rparr>"
  have d: "dx (gabor_kernel dot3 ?w (Vec3 1 0 0) ?phi 1 ?x) = - (2 * pi * exp (- (pi / 16)))"
    by (simp add: gabor_kernel_dx gabor_partial_def dot3_def)
  have i: "((\<lambda>s. s) has_real_derivative 1) (at (1 / 4 :: real))"
    by (rule DERIV_ident)
  from gabor_kernel_exact [of "\<lambda>s t. 1" "1 / 4" 0 ?w "\<lambda>s t. Vec3 s t 0" ?x "\<lambda>s t. 0" ?phi
      "Vec3 1 0 0" 1]
  show ?thesis using d i by (simp add: dot3_def)
qed

section \<open>Orthonormal frame\<close>

lemma dot3_nonneg: "0 \<le> dot3 v v"
  by (simp add: dot3_def)

lemma dot3_eq_0_iff: "dot3 v v = 0 \<longleftrightarrow> v = Vec3 0 0 0"
proof
  assume "dot3 v v = 0"
  then have "vx v * vx v + vy v * vy v + vz v * vz v = 0" by (simp add: dot3_def)
  then have "vx v = 0 \<and> vy v = 0 \<and> vz v = 0"
    by (metis add_nonneg_eq_0_iff zero_le_square mult_eq_0_iff add_nonneg_nonneg)
  then show "v = Vec3 0 0 0" by (cases v) simp
next
  assume "v = Vec3 0 0 0"
  then show "dot3 v v = 0" by (simp add: dot3_def)
qed

lemma length3_eq_0_iff: "length3 v = 0 \<longleftrightarrow> v = Vec3 0 0 0"
  by (simp add: length3_def dot3_eq_0_iff)

lemma length3_sq: "length3 v * length3 v = dot3 v v"
  by (simp add: length3_def dot3_nonneg)

lemma dot3_normalize:
  assumes "v \<noteq> Vec3 0 0 0"
  shows "dot3 (normalize3 v) w = dot3 v w / length3 v"
  using assms by (simp add: normalize3_def Let_def length3_eq_0_iff dot3_def add_divide_distrib)

lemma dot3_commute: "dot3 a b = dot3 b a"
  by (simp add: dot3_def mult.commute)

lemma dot3_normalize_self:
  assumes "v \<noteq> Vec3 0 0 0"
  shows "dot3 (normalize3 v) (normalize3 v) = 1"
proof -
  have l: "length3 v \<noteq> 0" using assms by (simp add: length3_eq_0_iff)
  have "dot3 v (normalize3 v) = dot3 (normalize3 v) v"
    by (rule dot3_commute)
  also have "\<dots> = dot3 v v / length3 v"
    by (rule dot3_normalize [OF assms])
  finally have "dot3 (normalize3 v) (normalize3 v) = dot3 v v / length3 v / length3 v"
    by (simp only: dot3_normalize [OF assms])
  also have "\<dots> = 1"
    using l by (simp add: length3_sq [symmetric])
  finally show ?thesis .
qed

lemma length3_normalize:
  assumes "v \<noteq> Vec3 0 0 0"
  shows "length3 (normalize3 v) = 1"
  by (simp add: length3_def dot3_normalize_self [OF assms])

lemma dot3_cross_left: "dot3 a (cross3 a b) = 0"
  by (simp add: dot3_def cross3_def algebra_simps)

lemma dot3_cross_right: "dot3 b (cross3 a b) = 0"
  by (simp add: dot3_def cross3_def algebra_simps)

lemma lagrange_identity:
  "dot3 (cross3 a b) (cross3 a b) = dot3 a a * dot3 b b - dot3 a b * dot3 a b"
  by (simp add: dot3_def cross3_def algebra_simps)


lemma make_orthonormals_aux_nonzero:
  assumes "dot3 v v = 1"
  shows "(if \<bar>vx v\<bar> < 0.9 then Vec3 0 (vz v) (- vy v) else Vec3 (- vz v) 0 (vx v)) \<noteq> Vec3 0 0 0"
proof (cases "\<bar>vx v\<bar> < 0.9")
  case True
  then have "vx v * vx v < 1"
    using abs_mult_less [of "vx v" "0.9" "vx v" "0.9"] by (simp add: abs_mult_self_eq)
  then have "vz v \<noteq> 0 \<or> vy v \<noteq> 0" using assms by (auto simp: dot3_def)
  with True show ?thesis by auto
next
  case False
  then have "vx v \<noteq> 0" by auto
  with False show ?thesis by simp
qed

lemma make_orthonormals_aux_orthogonal:
  "dot3 v (if \<bar>vx v\<bar> < 0.9 then Vec3 0 (vz v) (- vy v) else Vec3 (- vz v) 0 (vx v)) = 0"
  by (simp add: dot3_def)

lemma make_orthonormals_frame:
  assumes "v0 \<noteq> Vec3 0 0 0" and "make_orthonormals v0 = (v, a, b)"
  shows "dot3 v a = 0" "dot3 v b = 0" "dot3 a b = 0"
    "length3 v = 1" "length3 a = 1" "length3 b = 1" "b = cross3 v a" "v = normalize3 v0"
proof -
  let ?a0 = "if \<bar>vx v\<bar> < 0.9 then Vec3 0 (vz v) (- vy v) else Vec3 (- vz v) 0 (vx v)"
  from assms(2) have v: "v = normalize3 v0" and a: "a = normalize3 ?a0" and b: "b = cross3 v a"
    by (auto simp: make_orthonormals_def Let_def)
  have vv: "dot3 v v = 1" unfolding v by (rule dot3_normalize_self [OF assms(1)])
  have a0: "?a0 \<noteq> Vec3 0 0 0" by (rule make_orthonormals_aux_nonzero [OF vv])
  have aa: "dot3 a a = 1" unfolding a by (rule dot3_normalize_self [OF a0])
  have "dot3 a v = dot3 ?a0 v / length3 ?a0" unfolding a by (rule dot3_normalize [OF a0])
  also have "dot3 ?a0 v = dot3 v ?a0" by (rule dot3_commute)
  also have "\<dots> = 0" by (rule make_orthonormals_aux_orthogonal)
  finally have av: "dot3 a v = 0" by simp
  then show va: "dot3 v a = 0" by (simp only: dot3_commute [of v a])
  show "dot3 v b = 0" unfolding b by (rule dot3_cross_left)
  show "dot3 a b = 0" unfolding b by (rule dot3_cross_right)
  show "length3 v = 1" by (simp add: length3_def vv)
  show "length3 a = 1" by (simp add: length3_def aa)
  have "dot3 b b = 1" unfolding b by (simp add: lagrange_identity vv aa va)
  then show "length3 b = 1" by (simp add: length3_def)
  show "b = cross3 v a" by (rule b)
  show "v = normalize3 v0" by (rule v)
qed

lemma make_orthonormals_zero:
  "make_orthonormals (Vec3 0 0 0) = (Vec3 0 0 0, Vec3 0 0 0, Vec3 0 0 0)"
  by (simp add: make_orthonormals_def normalize3_def length3_def dot3_def cross3_def Let_def)

text \<open>
  C8. For a vector other than zero the three results are the normalized input \<open>v\<close> and
  two vectors \<open>a\<close>, \<open>b\<close> such that \<open>v\<close>, \<open>a\<close>, \<open>b\<close> are pairwise orthogonal and of length 1,
  with \<open>b = v \<times> a\<close> (so the frame is right-handed: \<open>(v \<times> a) \<cdot> b = 1\<close>). For the zero
  vector all three results are the zero vector.
\<close>

theorem make_orthonormals_orthonormal:
  "(v0 \<noteq> Vec3 0 0 0 \<longrightarrow>
     (case make_orthonormals v0 of (v, a, b) \<Rightarrow>
        v = normalize3 v0 \<and> dot3 v a = 0 \<and> dot3 v b = 0 \<and> dot3 a b = 0 \<and>
        length3 v = 1 \<and> length3 a = 1 \<and> length3 b = 1 \<and>
        b = cross3 v a \<and> dot3 (cross3 v a) b = 1)) \<and>
   (v0 = Vec3 0 0 0 \<longrightarrow>
     make_orthonormals v0 = (Vec3 0 0 0, Vec3 0 0 0, Vec3 0 0 0))"
proof (intro conjI impI)
  assume nz: "v0 \<noteq> Vec3 0 0 0"
  obtain v a b where m: "make_orthonormals v0 = (v, a, b)"
    by (cases "make_orthonormals v0") auto
  note f = make_orthonormals_frame [OF nz m]
  have "dot3 (cross3 v a) b = dot3 b b" by (simp only: f(7))
  also have "\<dots> = length3 b * length3 b" by (simp only: length3_sq)
  also have "\<dots> = 1" by (simp add: f(6))
  finally have "dot3 (cross3 v a) b = 1" .
  with f show "case make_orthonormals v0 of (v, a, b) \<Rightarrow>
        v = normalize3 v0 \<and> dot3 v a = 0 \<and> dot3 v b = 0 \<and> dot3 a b = 0 \<and>
        length3 v = 1 \<and> length3 a = 1 \<and> length3 b = 1 \<and>
        b = cross3 v a \<and> dot3 (cross3 v a) b = 1"
    by (simp add: m)
next
  assume "v0 = Vec3 0 0 0"
  then show "make_orthonormals v0 = (Vec3 0 0 0, Vec3 0 0 0, Vec3 0 0 0)"
    by (simp only: make_orthonormals_zero)
qed

lemma make_orthonormals_z2:
  "make_orthonormals (Vec3 0 0 2) = (Vec3 0 0 1, Vec3 0 1 0, Vec3 (- 1) 0 0)"
  by (simp add: make_orthonormals_def normalize3_def length3_def dot3_def cross3_def Let_def)

theorem make_orthonormals_orthonormal_witness:
  "Vec3 0 0 2 \<noteq> Vec3 0 0 0 \<and>
   make_orthonormals (Vec3 0 0 2) = (Vec3 0 0 1, Vec3 0 1 0, Vec3 (- 1) 0 0) \<and>
   Vec3 0 0 1 = normalize3 (Vec3 0 0 2) \<and>
   dot3 (Vec3 0 0 1) (Vec3 0 1 0) = 0 \<and> dot3 (Vec3 0 0 1) (Vec3 (- 1) 0 0) = 0 \<and>
   dot3 (Vec3 0 1 0) (Vec3 (- 1) 0 0) = 0 \<and>
   length3 (Vec3 0 0 1) = 1 \<and> length3 (Vec3 0 1 0) = 1 \<and> length3 (Vec3 (- 1) 0 0) = 1 \<and>
   Vec3 (- 1) 0 0 = cross3 (Vec3 0 0 1) (Vec3 0 1 0)"
proof -
  have nz: "Vec3 0 0 2 \<noteq> Vec3 0 0 0" by simp
  from make_orthonormals_orthonormal [of "Vec3 0 0 2", THEN conjunct1, THEN mp, OF nz]
  have "case make_orthonormals (Vec3 0 0 2) of (v, a, b) \<Rightarrow>
        v = normalize3 (Vec3 0 0 2) \<and> dot3 v a = 0 \<and> dot3 v b = 0 \<and> dot3 a b = 0 \<and>
        length3 v = 1 \<and> length3 a = 1 \<and> length3 b = 1 \<and>
        b = cross3 v a \<and> dot3 (cross3 v a) b = 1" .
  then have "Vec3 0 0 1 = normalize3 (Vec3 0 0 2) \<and>
      dot3 (Vec3 0 0 1) (Vec3 0 1 0) = 0 \<and> dot3 (Vec3 0 0 1) (Vec3 (- 1) 0 0) = 0 \<and>
      dot3 (Vec3 0 1 0) (Vec3 (- 1) 0 0) = 0 \<and>
      length3 (Vec3 0 0 1) = 1 \<and> length3 (Vec3 0 1 0) = 1 \<and> length3 (Vec3 (- 1) 0 0) = 1 \<and>
      Vec3 (- 1) 0 0 = cross3 (Vec3 0 0 1) (Vec3 0 1 0) \<and>
      dot3 (cross3 (Vec3 0 0 1) (Vec3 0 1 0)) (Vec3 (- 1) 0 0) = 1"
    unfolding make_orthonormals_z2 prod.case .
  with nz make_orthonormals_z2 show ?thesis by blast
qed

section \<open>The analytic filter under an isotropic footprint\<close>





















section \<open>Singular footprints\<close>

lemma NoiseParams_validate_singular:
  assumes "determinant (np_footprint p) \<le> 0"
  shows "NoiseParams_validate p = Inl ConfigurationError"
  using assms by (simp add: NoiseParams_validate_def)

lemma NoiseParams_validate_Inr:
  assumes "NoiseParams_validate p = Inr q"
  shows "0 < determinant (np_footprint q)" and "0 < np_bandwidth q"
  using assms by (auto simp: NoiseParams_validate_def split: if_splits)

lemma filtered_kernel_Inl:
  assumes "filtered_kernel p w omega phi = Inl e"
  shows "NoiseParams_validate p = Inl e"
  using assms by (simp add: filtered_kernel_def split: sum.splits)

text \<open>
  C4. A footprint covariance with a determinant that is not positive is rejected with a
  configuration error when the parameters are validated, so the filtering step of a
  sample fails with that error before \<^verbatim>\<open>filter_gabor_kernel_2d\<close> is reached; whenever the
  filtering step fails, the validation is what failed (the filter itself has no failure
  branch), and parameters that pass validation have a regular footprint.
\<close>

theorem singular_footprint_rejected_at_validation:
  assumes "determinant (np_footprint p) \<le> 0"
  shows "NoiseParams_validate p = Inl ConfigurationError \<and>
    filtered_kernel p w omega phi = Inl ConfigurationError \<and>
    (\<forall>p' e. filtered_kernel p' w omega phi = Inl e \<longrightarrow> NoiseParams_validate p' = Inl e) \<and>
    (\<forall>p' q. NoiseParams_validate p' = Inr q \<longrightarrow>
       0 < determinant (np_footprint q) \<and>
       filtered_kernel p' w omega phi
         = Inr (filter_gabor_kernel_2d (np_footprint q) w (np_bandwidth q) omega phi))"
proof (intro conjI allI impI)
  show v: "NoiseParams_validate p = Inl ConfigurationError"
    using assms by (rule NoiseParams_validate_singular)
  then show "filtered_kernel p w omega phi = Inl ConfigurationError"
    by (simp add: filtered_kernel_def)
next
  fix p' e
  assume "filtered_kernel p' w omega phi = Inl e"
  then show "NoiseParams_validate p' = Inl e" by (rule filtered_kernel_Inl)
next
  fix p' q
  assume q: "NoiseParams_validate p' = Inr q"
  then show "0 < determinant (np_footprint q)" by (rule NoiseParams_validate_Inr(1))
  from q show "filtered_kernel p' w omega phi
      = Inr (filter_gabor_kernel_2d (np_footprint q) w (np_bandwidth q) omega phi)"
    by (simp add: filtered_kernel_def)
qed

theorem singular_footprint_rejected_at_validation_witness:
  "determinant (Matrix22 1 2 2 4) \<le> 0 \<and>
   NoiseParams_validate
     \<lparr>np_anisotropy = Isotropic, np_bandwidth = 1, np_direction = Vec3 1 0 0, np_do_filter = True,
      np_footprint = Matrix22 1 2 2 4, np_periodic = False, np_period = Vec3 1 1 1\<rparr>
     = Inl ConfigurationError \<and>
   filtered_kernel
     \<lparr>np_anisotropy = Isotropic, np_bandwidth = 1, np_direction = Vec3 1 0 0, np_do_filter = True,
      np_footprint = Matrix22 1 2 2 4, np_periodic = False, np_period = Vec3 1 1 1\<rparr>
     \<lparr>val = 1, dx = 0, dy = 0\<rparr> (Vec2 1 0) \<lparr>val = 0, dx = 0, dy = 0\<rparr>
     = Inl ConfigurationError"
proof -
  have d: "determinant (np_footprint
     \<lparr>np_anisotropy = Isotropic, np_bandwidth = 1, np_direction = Vec3 1 0 0, np_do_filter = True,
      np_footprint = Matrix22 1 2 2 4, np_periodic = False, np_period = Vec3 1 1 1\<rparr>) \<le> 0"
    by (simp add: determinant_def)
  from singular_footprint_rejected_at_validation [OF d,
      of "\<lparr>val = 1, dx = 0, dy = 0\<rparr>" "Vec2 1 0" "\<lparr>val = 0, dx = 0, dy = 0\<rparr>"] d
  show ?thesis by simp
qed

end
